theory Spec2Isabelle
  imports Complex_Main
begin

section \<open>Data model of vix.py\<close>

text \<open>
  Prices and percent changes are Python floats; they are modelled as \<^typ>\<open>real\<close>, so
  arithmetic is exact. Every decision the scanner takes is a comparison of such numbers.
  The regime labels are the five strings that \<open>classify\<close> can return.
\<close>

datatype error = FetchError | ZeroDivisionError | TypeError | IndexError | KeyError

datatype regime = PANIC | TRANSITION | EARLY_PHASE_1 | CONFIRMED_PHASE_1 | LATE_PHASE_1

fun regime_name :: "regime \<Rightarrow> string" where
  "regime_name PANIC = ''PANIC''"
| "regime_name TRANSITION = ''TRANSITION''"
| "regime_name EARLY_PHASE_1 = ''EARLY_PHASE_1''"
| "regime_name CONFIRMED_PHASE_1 = ''CONFIRMED_PHASE_1''"
| "regime_name LATE_PHASE_1 = ''LATE_PHASE_1''"

text \<open>The dictionary built by \<open>fetch_market_data\<close>.\<close>

record market_data =
  vix :: real
  vvix :: real
  spx :: real
  vx1 :: real
  vx2 :: real
  vx3 :: real

text \<open>The dictionary built by \<open>compute_changes\<close>.\<close>

record changes =
  vix_change :: real
  vvix_change :: real
  spx_change :: real
  spread :: real
  spread_trending_down :: bool

text \<open>The global \<open>previous\<close>; every entry starts as \<open>None\<close>.\<close>

record previous_state =
  prev_vix :: "real option"
  prev_vvix :: "real option"
  prev_spx :: "real option"
  prev_spread :: "real option"
  prev_regime :: "regime option"

definition previous_init :: previous_state where
  "previous_init =
     \<lparr>prev_vix = None, prev_vvix = None, prev_spx = None, prev_spread = None,
      prev_regime = None\<rparr>"

section \<open>Data fetch\<close>

text \<open>
  \<open>get_price\<close> is a network call; its five answers are the argument. The third
  volatility proxy is not fetched but derived from the second.
\<close>

record prices =
  price_VIX :: real
  price_VVIX :: real
  price_GSPC :: real
  price_VIXY :: real
  price_UVXY :: real

definition fetch_market_data :: "prices \<Rightarrow> market_data" where
  "fetch_market_data p =
     \<lparr>vix = price_VIX p, vvix = price_VVIX p, spx = price_GSPC p,
      vx1 = price_VIXY p, vx2 = price_UVXY p, vx3 = price_UVXY p * 1.01\<rparr>"

section \<open>Calculations\<close>

text \<open>Python truthiness of a number or \<open>None\<close>, as used by \<open>if previous["vix"]:\<close>.\<close>

fun truthy :: "real option \<Rightarrow> bool" where
  "truthy None = False"
| "truthy (Some x) = (x \<noteq> 0)"

text \<open>
  \<open>(cur - prev) / prev * 100\<close>: subtracting \<open>None\<close> raises TypeError, dividing by
  zero raises ZeroDivisionError.
\<close>

fun pct_change :: "real \<Rightarrow> real option \<Rightarrow> error + real" where
  "pct_change cur None = Inl TypeError"
| "pct_change cur (Some p) =
     (if p = 0 then Inl ZeroDivisionError else Inr ((cur - p) / p * 100))"

definition compute_changes :: "market_data \<Rightarrow> previous_state \<Rightarrow> error + changes" where
  "compute_changes data prev =
     (let sp = vx1 data - vx2 data;
          down = (case prev_spread prev of None \<Rightarrow> False | Some ps \<Rightarrow> sp < ps)
      in if truthy (prev_vix prev) then
           (case pct_change (vix data) (prev_vix prev) of
              Inl e \<Rightarrow> Inl e
            | Inr a \<Rightarrow>
                (case pct_change (vvix data) (prev_vvix prev) of
                   Inl e \<Rightarrow> Inl e
                 | Inr b \<Rightarrow>
                     (case pct_change (spx data) (prev_spx prev) of
                        Inl e \<Rightarrow> Inl e
                      | Inr c \<Rightarrow>
                          Inr \<lparr>vix_change = a, vvix_change = b, spx_change = c,
                               spread = sp, spread_trending_down = down\<rparr>)))
         else
           Inr \<lparr>vix_change = 0, vvix_change = 0, spx_change = 0,
                spread = sp, spread_trending_down = down\<rparr>)"

definition fake_spike :: "market_data \<Rightarrow> changes \<Rightarrow> bool" where
  "fake_spike data ch \<longleftrightarrow>
     vix_change ch > 0 \<and> vvix_change ch > 0 \<and> (vx1 data > vx2 data \<and> vx2 data > vx3 data)"

text \<open>The score starts at 0 and each \<open>if\<close> adds its weight in turn.\<close>

definition probability_score :: "market_data \<Rightarrow> changes \<Rightarrow> int" where
  "probability_score data ch =
     (let score = 0;
          score = (if \<bar>vix_change ch\<bar> > 3 then score + 20 else score);
          score = (if vx1 data < vx2 data then score + 20 else score);
          score = (if spread ch < - 0.5 then score + 15 else score);
          score = (if spread_trending_down ch then score + 10 else score);
          score = (if vvix_change ch < 0 then score + 15 else score);
          score = (if spx_change ch > 0 \<and> vix_change ch < 0 then score + 10 else score);
          score = (if vx1 data < vx2 data \<and> vx2 data < vx3 data then score + 10 else score)
      in score)"

definition classify :: "int \<Rightarrow> regime" where
  "classify score =
     (if score < 30 then PANIC
      else if score < 50 then TRANSITION
      else if score < 70 then EARLY_PHASE_1
      else if score < 85 then CONFIRMED_PHASE_1
      else LATE_PHASE_1)"

text \<open>The old regime is \<open>previous["regime"]\<close>, which is \<open>None\<close> before the first scored tick.\<close>

definition important :: "regime list" where
  "important = [TRANSITION, EARLY_PHASE_1, CONFIRMED_PHASE_1]"

definition should_alert :: "regime \<Rightarrow> regime option \<Rightarrow> bool" where
  "should_alert new old \<longleftrightarrow> Some new \<noteq> old \<and> new \<in> set important"

definition EARLY_WARNING_THRESHOLD :: real where
  "EARLY_WARNING_THRESHOLD = - 0.25"

definition should_early_warning_alert :: "changes \<Rightarrow> bool" where
  "should_early_warning_alert ch \<longleftrightarrow>
     EARLY_WARNING_THRESHOLD \<ge> spread ch \<and> spread ch > - 0.5"

section \<open>Strength\<close>

text \<open>Python's \<open>int\<close> on a float drops the fractional part (rounds toward zero).\<close>

definition py_int :: "real \<Rightarrow> int" where
  "py_int x = (if 0 \<le> x then \<lfloor>x\<rfloor> else \<lceil>x\<rceil>)"

definition signal_strength :: "real \<Rightarrow> bool \<Rightarrow> int" where
  "signal_strength v ideal_positive =
     (if ideal_positive then max (min (py_int (v * 5 + 50)) 100) 0
      else max (min (py_int ((0 - v) * 5 + 50)) 100) 0)"

text \<open>The four calls made in \<open>run\<close> when a phase alert fires.\<close>

definition vix_str :: "changes \<Rightarrow> int" where
  "vix_str ch = signal_strength (- vix_change ch) True"

definition vvix_str :: "changes \<Rightarrow> int" where
  "vvix_str ch = signal_strength (- vvix_change ch) True"

definition spread_str :: "changes \<Rightarrow> int" where
  "spread_str ch = signal_strength (- spread ch) True"

definition spx_str :: "changes \<Rightarrow> int" where
  "spx_str ch = signal_strength (spx_change ch) True"

section \<open>Bounded buffers\<close>

text \<open>
  A buffer holds what JSON can give it: numbers (the strengths are Python ints) and
  strings (dates and regime names). \<open>collections.deque\<close> with \<open>maxlen\<close>: \<open>append\<close>
  adds on the right and, when the length then exceeds \<open>maxlen\<close>, removes one element on
  the left; the constructor appends the elements of its argument one by one.
\<close>

datatype elem = Num int | Txt string

record deque =
  items :: "elem list"
  maxlen :: nat

definition deque_empty :: "nat \<Rightarrow> deque" where
  "deque_empty m = \<lparr>items = [], maxlen = m\<rparr>"

definition deque_append :: "deque \<Rightarrow> elem \<Rightarrow> deque" where
  "deque_append d x =
     (let ys = items d @ [x]
      in d\<lparr>items := (if length ys > maxlen d then tl ys else ys)\<rparr>)"

definition deque_of :: "elem list \<Rightarrow> nat \<Rightarrow> deque" where
  "deque_of xs m = foldl deque_append (deque_empty m) xs"

definition SMOOTHING_DAYS :: nat where
  "SMOOTHING_DAYS = 3"

definition TREND_LENGTH :: nat where
  "TREND_LENGTH = 5"

definition WEEKLY_LENGTH :: nat where
  "WEEKLY_LENGTH = 7"

type_synonym history_dict = "string \<rightharpoonup> deque"

definition history_init :: history_dict where
  "history_init = map_of
     [(''vix_strength'', deque_empty SMOOTHING_DAYS),
      (''vvix_strength'', deque_empty SMOOTHING_DAYS),
      (''spread_strength'', deque_empty SMOOTHING_DAYS),
      (''spx_strength'', deque_empty SMOOTHING_DAYS),
      (''vix_trend'', deque_empty TREND_LENGTH),
      (''vvix_trend'', deque_empty TREND_LENGTH),
      (''spread_trend'', deque_empty TREND_LENGTH),
      (''spx_trend'', deque_empty TREND_LENGTH),
      (''vix_week'', deque_empty WEEKLY_LENGTH),
      (''vvix_week'', deque_empty WEEKLY_LENGTH),
      (''spread_week'', deque_empty WEEKLY_LENGTH),
      (''spx_week'', deque_empty WEEKLY_LENGTH),
      (''regime_week'', deque_empty WEEKLY_LENGTH),
      (''date_week'', deque_empty WEEKLY_LENGTH)]"

section \<open>JSON persistence\<close>

text \<open>
  The file, when it exists, is a JSON object: buffer names with their lists, in file
  order. A name that \<open>history\<close> does not have raises KeyError at \<open>history[k].maxlen\<close>;
  only FileNotFoundError is caught, so the KeyError leaves \<open>load_history\<close> with the
  earlier keys already replaced. The result is the exception, if any, and the dictionary.
\<close>

type_synonym history_file = "(string \<times> elem list) list"

fun load_keys :: "history_file \<Rightarrow> history_dict \<Rightarrow> error option \<times> history_dict" where
  "load_keys [] h = (None, h)"
| "load_keys ((k, xs) # rest) h =
     (case h k of
        None \<Rightarrow> (Some KeyError, h)
      | Some d \<Rightarrow> load_keys rest (h(k \<mapsto> deque_of xs (maxlen d))))"

definition load_history :: "history_file option \<Rightarrow> history_dict \<Rightarrow> error option \<times> history_dict" where
  "load_history file h = (case file of None \<Rightarrow> (None, h) | Some data \<Rightarrow> load_keys data h)"

section \<open>Smoothing and charts\<close>

text \<open>\<open>sum\<close> starts from 0 and adds the elements in order; adding a string raises TypeError.\<close>

fun py_sum :: "int \<Rightarrow> elem list \<Rightarrow> error + int" where
  "py_sum acc [] = Inr acc"
| "py_sum acc (Num n # xs) = py_sum (acc + n) xs"
| "py_sum acc (Txt t # xs) = Inl TypeError"

text \<open>\<open>sum(q) / len(q)\<close>: the sum is evaluated first, then the division.\<close>

definition mean :: "elem list \<Rightarrow> error + real" where
  "mean xs =
     (case py_sum 0 xs of
        Inl e \<Rightarrow> Inl e
      | Inr t \<Rightarrow> if length xs = 0 then Inl ZeroDivisionError
                 else Inr (real_of_int t / real (length xs)))"

definition smoothed_strength ::
  "string \<Rightarrow> int \<Rightarrow> history_dict \<Rightarrow> (error + int) \<times> history_dict" where
  "smoothed_strength name current_score h =
     (case h name of
        None \<Rightarrow> (Inl KeyError, h)
      | Some d \<Rightarrow>
          (let d' = deque_append d (Num current_score); h' = h(name \<mapsto> d')
           in case mean (items d') of
                Inl e \<Rightarrow> (Inl e, h')
              | Inr m \<Rightarrow> (Inr (py_int m), h')))"

text \<open>
  The two block characters of \<open>bar_visual\<close> are written \<open>#\<close> (filled) and \<open>-\<close> (empty);
  repeating a string a negative number of times gives the empty string.
\<close>

definition bar_visual :: "int \<Rightarrow> string" where
  "bar_visual score =
     (let blocks = py_int (real_of_int score / 10)
      in replicate (nat blocks) CHR ''#'' @ replicate (nat (10 - blocks)) CHR ''-'')"

fun trend_visual :: "elem list \<Rightarrow> error + string" where
  "trend_visual [] = Inr []"
| "trend_visual (Num v # vs) =
     (case trend_visual vs of
        Inl e \<Rightarrow> Inl e
      | Inr chart \<Rightarrow> Inr (bar_visual v @ [CHR 10] @ chart))"
| "trend_visual (Txt t # vs) = Inl TypeError"

section \<open>Messages and the loop state\<close>

text \<open>
  A message is what \<open>send_telegram\<close> is given, as data rather than as formatted text;
  sending it and writing the history file are outputs of a tick and do not fail here.
  The state of the loop is the two globals and the local \<open>last_weekly_alert\<close>; time is
  in seconds.
\<close>

datatype arrow = Up | Down | Flat

type_synonym week_row = "elem \<times> string \<times> string \<times> string \<times> string \<times> elem"

datatype message =
    FakeSpikeAlert
  | EarlyWarning real
  | PhaseAlert regime int "int list" "int list" "string list"
  | WeeklyDashboard "week_row list" "int list" "arrow list" "regime option"
  | ScannerError error

datatype event = Sent message | Saved "string \<rightharpoonup> elem list"

record state =
  previous :: previous_state
  history :: history_dict
  last_weekly_alert :: real

record tick_input =
  fetched :: "error + market_data"
  today :: string
  now :: real

definition bind_e :: "error + 'a \<Rightarrow> ('a \<Rightarrow> error + 'b) \<Rightarrow> error + 'b" where
  "bind_e m f = (case m of Inl e \<Rightarrow> Inl e | Inr x \<Rightarrow> f x)"

definition get_buf :: "history_dict \<Rightarrow> string \<Rightarrow> error + elem list" where
  "get_buf h k = (case h k of None \<Rightarrow> Inl KeyError | Some d \<Rightarrow> Inr (items d))"

definition index :: "elem list \<Rightarrow> nat \<Rightarrow> error + elem" where
  "index xs i = (if i < length xs then Inr (xs ! i) else Inl IndexError)"

fun bar_of :: "elem \<Rightarrow> error + string" where
  "bar_of (Num v) = Inr (bar_visual v)"
| "bar_of (Txt t) = Inl TypeError"

section \<open>Weekly dashboard\<close>

text \<open>
  \<open>trend_arrow\<close> compares the last element with the first. It is reached only after
  \<open>sum\<close> has succeeded on the buffer, which then holds numbers only.
\<close>

definition trend_arrow :: "elem list \<Rightarrow> error + arrow" where
  "trend_arrow seq =
     (if seq = [] then Inl IndexError
      else (case (last seq, hd seq) of
              (Num a, Num b) \<Rightarrow> Inr (if a > b then Up else if a < b then Down else Flat)
            | _ \<Rightarrow> Inl TypeError))"

definition week_row_at :: "history_dict \<Rightarrow> nat \<Rightarrow> error + week_row" where
  "week_row_at h i =
     bind_e (bind_e (get_buf h ''date_week'') (\<lambda>q. index q i)) (\<lambda>date.
     bind_e (bind_e (bind_e (get_buf h ''vix_week'') (\<lambda>q. index q i)) bar_of) (\<lambda>b1.
     bind_e (bind_e (bind_e (get_buf h ''vvix_week'') (\<lambda>q. index q i)) bar_of) (\<lambda>b2.
     bind_e (bind_e (bind_e (get_buf h ''spread_week'') (\<lambda>q. index q i)) bar_of) (\<lambda>b3.
     bind_e (bind_e (bind_e (get_buf h ''spx_week'') (\<lambda>q. index q i)) bar_of) (\<lambda>b4.
     bind_e (bind_e (get_buf h ''regime_week'') (\<lambda>q. index q i)) (\<lambda>rg.
     Inr (date, b1, b2, b3, b4, rg)))))))"

fun week_rows :: "history_dict \<Rightarrow> nat list \<Rightarrow> error + week_row list" where
  "week_rows h [] = Inr []"
| "week_rows h (i # rest) =
     bind_e (week_row_at h i) (\<lambda>r. bind_e (week_rows h rest) (\<lambda>rs. Inr (r # rs)))"

definition send_weekly_dashboard :: "history_dict \<Rightarrow> previous_state \<Rightarrow> error + event list" where
  "send_weekly_dashboard h prev =
     bind_e (get_buf h ''vix_week'') (\<lambda>w1.
       if length w1 < 2 then Inr []
       else
         bind_e (mean w1) (\<lambda>avg_vix.
         bind_e (bind_e (get_buf h ''vvix_week'') mean) (\<lambda>avg_vvix.
         bind_e (bind_e (get_buf h ''spread_week'') mean) (\<lambda>avg_spread.
         bind_e (bind_e (get_buf h ''spx_week'') mean) (\<lambda>avg_spx.
         bind_e (week_rows h [0 ..< length w1]) (\<lambda>rows.
         bind_e (bind_e (get_buf h ''vix_week'') trend_arrow) (\<lambda>a1.
         bind_e (bind_e (get_buf h ''vvix_week'') trend_arrow) (\<lambda>a2.
         bind_e (bind_e (get_buf h ''spread_week'') trend_arrow) (\<lambda>a3.
         bind_e (bind_e (get_buf h ''spx_week'') trend_arrow) (\<lambda>a4.
         Inr [Sent (WeeklyDashboard rows
                [py_int avg_vix, py_int avg_vvix, py_int avg_spread, py_int avg_spx]
                [a1, a2, a3, a4] (prev_regime prev))]))))))))))"

section \<open>Main loop\<close>

text \<open>
  The calls of \<open>smoothed_strength\<close> and the appends to the trend and weekly buffers are
  made one after the other; an exception stops the sequence and keeps what was already
  appended.
\<close>

fun smooth_each :: "(string \<times> int) list \<Rightarrow> history_dict \<Rightarrow> (error + int list) \<times> history_dict" where
  "smooth_each [] h = (Inr [], h)"
| "smooth_each ((name, v) # rest) h =
     (case smoothed_strength name v h of
        (Inl e, h') \<Rightarrow> (Inl e, h')
      | (Inr m, h') \<Rightarrow>
          (case smooth_each rest h' of
             (Inl e, h'') \<Rightarrow> (Inl e, h'')
           | (Inr ms, h'') \<Rightarrow> (Inr (m # ms), h'')))"

fun append_each :: "(string \<times> elem) list \<Rightarrow> history_dict \<Rightarrow> error option \<times> history_dict" where
  "append_each [] h = (None, h)"
| "append_each ((name, x) # rest) h =
     (case h name of
        None \<Rightarrow> (Some KeyError, h)
      | Some d \<Rightarrow> append_each rest (h(name \<mapsto> deque_append d x)))"

fun charts :: "history_dict \<Rightarrow> string list \<Rightarrow> error + string list" where
  "charts h [] = Inr []"
| "charts h (name # rest) =
     bind_e (bind_e (get_buf h name) trend_visual) (\<lambda>c.
     bind_e (charts h rest) (\<lambda>cs. Inr (c # cs)))"

text \<open>
  The body of \<open>if should_alert(regime, previous["regime"]):\<close>. First the four
  calls of \<open>smoothed_strength\<close>, then the ten appends to the trend and weekly buffers,
  \<open>save_history\<close>, the charts and the message. The result is the exception that ended
  it, if any, what was sent and saved, and the dictionary.
\<close>

definition smoothing_calls :: "changes \<Rightarrow> (string \<times> int) list" where
  "smoothing_calls ch =
     [(''vix_strength'', vix_str ch), (''vvix_strength'', vvix_str ch),
      (''spread_strength'', spread_str ch), (''spx_strength'', spx_str ch)]"

definition buffer_appends :: "changes \<Rightarrow> regime \<Rightarrow> string \<Rightarrow> (string \<times> elem) list" where
  "buffer_appends ch rg date =
     [(''vix_trend'', Num (vix_str ch)), (''vvix_trend'', Num (vvix_str ch)),
      (''spread_trend'', Num (spread_str ch)), (''spx_trend'', Num (spx_str ch)),
      (''vix_week'', Num (vix_str ch)), (''vvix_week'', Num (vvix_str ch)),
      (''spread_week'', Num (spread_str ch)), (''spx_week'', Num (spx_str ch)),
      (''regime_week'', Txt (regime_name rg)), (''date_week'', Txt date)]"

definition phase_alert ::
  "changes \<Rightarrow> int \<Rightarrow> regime \<Rightarrow> string \<Rightarrow> history_dict \<Rightarrow> (error option \<times> event list) \<times> history_dict" where
  "phase_alert ch score rg date h =
     (let strengths = [vix_str ch, vvix_str ch, spread_str ch, spx_str ch]
      in case smooth_each (smoothing_calls ch) h of
           (Inl e, h1) \<Rightarrow> ((Some e, []), h1)
         | (Inr smooth, h1) \<Rightarrow>
             (case append_each (buffer_appends ch rg date) h1 of
                (Some e, h2) \<Rightarrow> ((Some e, []), h2)
              | (None, h2) \<Rightarrow>
                  (let saved = Saved (\<lambda>k. map_option items (h2 k))
                   in case charts h2 [''vix_trend'', ''vvix_trend'', ''spread_trend'', ''spx_trend''] of
                        Inl e \<Rightarrow> ((Some e, [saved]), h2)
                      | Inr cs \<Rightarrow>
                          ((None, [saved, Sent (PhaseAlert rg score strengths smooth cs)]), h2))))"

text \<open>
  One iteration of \<open>while True\<close>, from the outcome of \<open>fetch_market_data()\<close>. Any
  exception inside \<open>try\<close> is reported as a scanner error and the assignments to
  \<open>previous\<close> at the end of the body are skipped.
\<close>

definition tick :: "tick_input \<Rightarrow> state \<Rightarrow> event list \<times> state" where
  "tick inp s =
     (case fetched inp of
        Inl e \<Rightarrow> ([Sent (ScannerError e)], s)
      | Inr data \<Rightarrow>
          (case compute_changes data (previous s) of
             Inl e \<Rightarrow> ([Sent (ScannerError e)], s)
           | Inr ch \<Rightarrow>
               if fake_spike data ch then ([Sent FakeSpikeAlert], s)
               else
                 (let score = probability_score data ch;
                      rg = classify score;
                      early = (if should_early_warning_alert ch
                               then [Sent (EarlyWarning (spread ch))] else []);
                      alerted = (if should_alert rg (prev_regime (previous s))
                                 then phase_alert ch score rg (today inp) (history s)
                                 else ((None, []), history s));
                      evs = early @ snd (fst alerted);
                      h = snd alerted
                  in case fst (fst alerted) of
                       Some e \<Rightarrow> (evs @ [Sent (ScannerError e)], s\<lparr>history := h\<rparr>)
                     | None \<Rightarrow>
                         (let due = (now inp - last_weekly_alert s > 24 * 3600)
                          in case (if due then send_weekly_dashboard h (previous s) else Inr []) of
                               Inl e \<Rightarrow> (evs @ [Sent (ScannerError e)], s\<lparr>history := h\<rparr>)
                             | Inr weekly \<Rightarrow>
                                 (evs @ weekly,
                                  \<lparr>previous =
                                     \<lparr>prev_vix = Some (vix data), prev_vvix = Some (vvix data),
                                      prev_spx = Some (spx data), prev_spread = Some (spread ch),
                                      prev_regime = Some rg\<rparr>,
                                   history = h,
                                   last_weekly_alert =
                                     (if due then now inp else last_weekly_alert s)\<rparr>)))))"

text \<open>
  \<open>run\<close> loads the history, sends its start message, sets \<open>last_weekly_alert\<close> one day
  back and loops for ever; a KeyError from \<open>load_history\<close> ends the program before the
  loop. \<open>run_init\<close> is the state in which the loop is entered, \<open>run_ticks\<close> the state
  after the iterations whose inputs are listed. The sleep between iterations changes
  nothing.
\<close>

definition run_init :: "history_file option \<Rightarrow> real \<Rightarrow> error + state" where
  "run_init file t0 =
     (case load_history file history_init of
        (Some e, h) \<Rightarrow> Inl e
      | (None, h) \<Rightarrow>
          Inr \<lparr>previous = previous_init, history = h, last_weekly_alert = t0 - 86400\<rparr>)"

fun run_ticks :: "state \<Rightarrow> tick_input list \<Rightarrow> state" where
  "run_ticks s [] = s"
| "run_ticks s (inp # inps) = run_ticks (snd (tick inp s)) inps"

section \<open>Notions of the specification\<close>

text \<open>The table of conditions and points of the scoring engine, as the specification lists it.\<close>

definition spec_score_table :: "market_data \<Rightarrow> changes \<Rightarrow> (bool \<times> int) list" where
  "spec_score_table data ch =
     [(\<bar>vix_change ch\<bar> > 3, 20),
      (vx1 data < vx2 data, 20),
      (spread ch < - 0.5, 15),
      (spread_trending_down ch, 10),
      (vvix_change ch < 0, 15),
      (spx_change ch > 0 \<and> vix_change ch < 0, 10),
      (vx1 data < vx2 data \<and> vx2 data < vx3 data, 10)]"

definition triggered_weights :: "(bool \<times> int) list \<Rightarrow> int" where
  "triggered_weights table = sum_list (map snd (filter fst table))"


text \<open>The declared capacity of every buffer, and the contents of a buffer.\<close>

definition capacities :: "(string \<times> nat) list" where
  "capacities =
     [(''vix_strength'', 3), (''vvix_strength'', 3), (''spread_strength'', 3),
      (''spx_strength'', 3),
      (''vix_trend'', 5), (''vvix_trend'', 5), (''spread_trend'', 5), (''spx_trend'', 5),
      (''vix_week'', 7), (''vvix_week'', 7), (''spread_week'', 7), (''spx_week'', 7),
      (''regime_week'', 7), (''date_week'', 7)]"

definition within_capacity :: "history_dict \<Rightarrow> bool" where
  "within_capacity h \<longleftrightarrow>
     list_all (\<lambda>(k, c). case h k of
                          None \<Rightarrow> False
                        | Some d \<Rightarrow> maxlen d = c \<and> length (items d) \<le> c) capacities"

definition buffer :: "history_dict \<Rightarrow> string \<Rightarrow> elem list" where
  "buffer h k = (case h k of None \<Rightarrow> [] | Some d \<Rightarrow> items d)"



section \<open>Scoring, classification and the alert gate\<close>

text \<open>
  C1. For every snapshot and every changes record, \<open>probability_score\<close> is the sum of the
  weights of those conditions of the scoring table that hold, each condition counted
  with its full weight or not at all, and the score lies between 0 and 100.
\<close>

theorem score_is_sum_of_triggered_weights:
  "probability_score data ch = triggered_weights (spec_score_table data ch)
   \<and> 0 \<le> probability_score data ch \<and> probability_score data ch \<le> 100"
  by (simp add: probability_score_def triggered_weights_def spec_score_table_def Let_def)

text \<open>
  A snapshot in contango with a spread of -5 on the first tick: the three conditions on
  the term structure hold and give 20 + 15 + 10.
\<close>

theorem score_is_sum_of_triggered_weights_witness:
  "probability_score
     \<lparr>vix = 20, vvix = 100, spx = 5000, vx1 = 20, vx2 = 25, vx3 = 25.25\<rparr>
     \<lparr>vix_change = 0, vvix_change = 0, spx_change = 0, spread = - 5,
      spread_trending_down = False\<rparr> = 45"
  using score_is_sum_of_triggered_weights [of
      "\<lparr>vix = 20, vvix = 100, spx = 5000, vx1 = 20, vx2 = 25, vx3 = 25.25\<rparr>"
      "\<lparr>vix_change = 0, vvix_change = 0, spx_change = 0, spread = - 5,
        spread_trending_down = False\<rparr>"]
  by (simp add: triggered_weights_def spec_score_table_def)

text \<open>
  C2. For every integer score, \<open>classify\<close> is the step function with boundaries at 30,
  50, 70 and 85: each regime is returned exactly on its band, the bands are closed below
  and open above, and they neither overlap nor leave a gap.
\<close>

theorem classify_bands:
  "(classify score = PANIC \<longleftrightarrow> score < 30)
   \<and> (classify score = TRANSITION \<longleftrightarrow> 30 \<le> score \<and> score < 50)
   \<and> (classify score = EARLY_PHASE_1 \<longleftrightarrow> 50 \<le> score \<and> score < 70)
   \<and> (classify score = CONFIRMED_PHASE_1 \<longleftrightarrow> 70 \<le> score \<and> score < 85)
   \<and> (classify score = LATE_PHASE_1 \<longleftrightarrow> 85 \<le> score)"
  by (simp add: classify_def)

text \<open>Both edges of the bands around 30, 70 and 85.\<close>

theorem classify_bands_witness:
  "classify 72 = CONFIRMED_PHASE_1 \<and> classify 70 = CONFIRMED_PHASE_1
   \<and> classify 69 = EARLY_PHASE_1 \<and> classify 29 = PANIC \<and> classify 30 = TRANSITION
   \<and> classify 84 = CONFIRMED_PHASE_1 \<and> classify 85 = LATE_PHASE_1"
  using classify_bands [of 72] classify_bands [of 70] classify_bands [of 69]
    classify_bands [of 29] classify_bands [of 30] classify_bands [of 84]
    classify_bands [of 85]
  by simp

text \<open>
  C3. The phase alert fires if and only if the new regime differs from the stored one
  and is one of TRANSITION, EARLY_PHASE_1, CONFIRMED_PHASE_1. It does not fire when the
  regime is unchanged, and never on a change into PANIC or LATE_PHASE_1.
\<close>

theorem should_alert_edge_triggered:
  "(should_alert new old \<longleftrightarrow>
      Some new \<noteq> old \<and> new \<in> {TRANSITION, EARLY_PHASE_1, CONFIRMED_PHASE_1})
   \<and> \<not> should_alert new (Some new)
   \<and> \<not> should_alert PANIC old
   \<and> \<not> should_alert LATE_PHASE_1 old"
  by (simp add: should_alert_def important_def)

theorem should_alert_edge_triggered_witness:
  "should_alert EARLY_PHASE_1 (Some TRANSITION) \<and> should_alert TRANSITION None
   \<and> \<not> should_alert EARLY_PHASE_1 (Some EARLY_PHASE_1)
   \<and> \<not> should_alert PANIC (Some TRANSITION)"
  using should_alert_edge_triggered [of EARLY_PHASE_1 "Some TRANSITION"]
    should_alert_edge_triggered [of TRANSITION None]
    should_alert_edge_triggered [of EARLY_PHASE_1 "Some EARLY_PHASE_1"]
  by simp

section \<open>Strength\<close>




section \<open>Change computation\<close>

text \<open>
  C8. On the first tick, when \<open>previous\<close> still holds no snapshot, the three percent
  changes are the constant 0, \<open>spread_trending_down\<close> is false, and the spread is
  \<open>vx1 - vx2\<close>. The loop is entered in such a state, whatever the history file holds.
\<close>

theorem first_tick_changes:
  "compute_changes data previous_init =
     Inr \<lparr>vix_change = 0, vvix_change = 0, spx_change = 0,
          spread = vx1 data - vx2 data, spread_trending_down = False\<rparr>
   \<and> (run_init file t0 = Inr s \<longrightarrow>
        compute_changes data (previous s) =
          Inr \<lparr>vix_change = 0, vvix_change = 0, spx_change = 0,
               spread = vx1 data - vx2 data, spread_trending_down = False\<rparr>)"
proof -
  have first: "compute_changes data previous_init =
     Inr \<lparr>vix_change = 0, vvix_change = 0, spx_change = 0,
          spread = vx1 data - vx2 data, spread_trending_down = False\<rparr>"
    by (simp add: compute_changes_def previous_init_def)
  have "previous s = previous_init" if "run_init file t0 = Inr s"
    using that by (auto simp: run_init_def split: prod.splits option.splits)
  with first show ?thesis by simp
qed

theorem first_tick_changes_witness:
  "run_init None 0 =
     Inr \<lparr>previous = previous_init, history = history_init, last_weekly_alert = - 86400\<rparr>
   \<and> compute_changes
     \<lparr>vix = 20, vvix = 100, spx = 5000, vx1 = 30, vx2 = 25, vx3 = 25.25\<rparr>
     (previous
        \<lparr>previous = previous_init, history = history_init, last_weekly_alert = - 86400\<rparr>)
   = Inr \<lparr>vix_change = 0, vvix_change = 0, spx_change = 0, spread = 5,
          spread_trending_down = False\<rparr>"
proof -
  have r: "run_init None 0 =
     Inr \<lparr>previous = previous_init, history = history_init, last_weekly_alert = - 86400\<rparr>"
    by (simp add: run_init_def load_history_def)
  from r first_tick_changes [of
      "\<lparr>vix = 20, vvix = 100, spx = 5000, vx1 = 30, vx2 = 25, vx3 = 25.25\<rparr>" None 0
      "\<lparr>previous = previous_init, history = history_init, last_weekly_alert = - 86400\<rparr>"]
  show ?thesis by simp
qed




section \<open>Bounded buffers keep their capacity\<close>

lemma maxlen_deque_append: "maxlen (deque_append d x) = maxlen d"
  by (simp add: deque_append_def Let_def)

lemma items_deque_append:
  assumes "length (items d) \<le> maxlen d"
  shows "items (deque_append d x) = drop (Suc (length (items d)) - maxlen d) (items d @ [x])"
proof (cases "length (items d) < maxlen d")
  case True
  then show ?thesis by (simp add: deque_append_def Let_def)
next
  case False
  with assms have "maxlen d = length (items d)" by simp
  then show ?thesis by (cases "items d") (simp_all add: deque_append_def Let_def)
qed

lemma length_deque_append:
  "length (items d) \<le> maxlen d \<Longrightarrow> length (items (deque_append d x)) \<le> maxlen d"
  by (auto simp: deque_append_def Let_def)

text \<open>Appending to a window of the newest \<open>m\<close> elements gives the window of the longer list.\<close>

lemma window_snoc:
  "drop (Suc (length (drop (length L - m) L)) - m) (drop (length L - m) L @ [x])
     = drop (Suc (length L) - m) (L @ [x])"
proof (cases "length L < m")
  case True
  then show ?thesis by simp
next
  case False
  show ?thesis
  proof (cases "m = 0")
    case True
    then show ?thesis by simp
  next
    case m: False
    from False m have k: "Suc (length L) - m = Suc (length L - m)" and lt: "length L - m < length L"
      by arith+
    from False have len: "length (drop (length L - m) L) = m"
      by simp
    from lt have ne: "drop (length L - m) L \<noteq> []"
      by simp
    have one: "Suc (length (drop (length L - m) L)) - m = Suc 0"
      using len by simp
    have d1: "drop (Suc 0) ys = tl ys" for ys :: "'a list"
      by (simp add: drop_Suc)
    have "drop (Suc (length (drop (length L - m) L)) - m) (drop (length L - m) L @ [x])
        = tl (drop (length L - m) L @ [x])"
      by (simp only: one d1)
    also have "\<dots> = tl (drop (length L - m) L) @ [x]"
      using ne by simp
    also have "\<dots> = drop (Suc (length L - m)) L @ [x]"
      by (simp add: drop_Suc drop_tl)
    also have "\<dots> = drop (Suc (length L) - m) (L @ [x])"
      using lt by (simp add: k)
    finally show ?thesis .
  qed
qed

text \<open>
  Any sequence of appends: the capacity stays, and the buffer holds the newest elements
  of the old content followed by the appended ones.
\<close>

lemma foldl_deque_append:
  assumes "length (items d) \<le> maxlen d"
  shows "maxlen (foldl deque_append d xs) = maxlen d
     \<and> items (foldl deque_append d xs) =
         drop (length (items d @ xs) - maxlen d) (items d @ xs)"
proof (induction xs rule: rev_induct)
  case Nil
  from assms show ?case by simp
next
  case (snoc x xs)
  let ?D = "foldl deque_append d xs"
  let ?L = "items d @ xs"
  from snoc.IH have m: "maxlen ?D = maxlen d"
    and i: "items ?D = drop (length ?L - maxlen d) ?L"
    by simp_all
  from m i have le: "length (items ?D) \<le> maxlen ?D"
    by simp
  have "items (deque_append ?D x) =
          drop (Suc (length (items ?D)) - maxlen d) (items ?D @ [x])"
    using items_deque_append [OF le, of x] by (simp only: m)
  also have "\<dots> = drop (Suc (length ?L) - maxlen d) (?L @ [x])"
    by (simp only: i window_snoc)
  finally have "items (deque_append ?D x) =
      drop (length (items d @ xs @ [x]) - maxlen d) (items d @ xs @ [x])"
    by simp
  then show ?case by (simp add: m maxlen_deque_append)
qed

text \<open>The constructor keeps the newest \<open>m\<close> elements of the list it is given.\<close>

lemma items_deque_of: "items (deque_of xs m) = drop (length xs - m) xs"
  using foldl_deque_append [of "deque_empty m" xs]
  by (simp add: deque_of_def deque_empty_def)

lemma maxlen_deque_of: "maxlen (deque_of xs m) = m"
  using foldl_deque_append [of "deque_empty m" xs]
  by (simp add: deque_of_def deque_empty_def)

lemma length_deque_of: "length (items (deque_of xs m)) \<le> m"
  by (simp add: items_deque_of)

lemma within_capacity_iff:
  "within_capacity h \<longleftrightarrow>
     (\<forall>(k, c) \<in> set capacities. \<exists>d. h k = Some d \<and> maxlen d = c \<and> length (items d) \<le> c)"
  by (auto simp: within_capacity_def list_all_iff split: option.splits)

lemma within_capacity_update:
  assumes "within_capacity h" and "h k = Some d" and "maxlen d' = maxlen d"
    and "length (items d') \<le> maxlen d'"
  shows "within_capacity (h(k \<mapsto> d'))"
  using assms unfolding within_capacity_iff by fastforce

lemma within_capacity_init: "within_capacity history_init"
  by (simp add: within_capacity_def capacities_def history_init_def deque_empty_def
      SMOOTHING_DAYS_def TREND_LENGTH_def WEEKLY_LENGTH_def)

lemma within_capacity_append:
  assumes "within_capacity h" and "h k = Some d"
  shows "within_capacity (h(k \<mapsto> deque_append d x))"
proof (cases "k \<in> fst ` set capacities")
  case True
  with assms have "length (items d) \<le> maxlen d"
    unfolding within_capacity_iff by fastforce
  then have "length (items (deque_append d x)) \<le> maxlen (deque_append d x)"
    by (simp add: length_deque_append maxlen_deque_append)
  with assms show ?thesis
    by (intro within_capacity_update [where d = d]) (simp_all add: maxlen_deque_append)
next
  case False
  with assms(1) show ?thesis
    unfolding within_capacity_iff by force
qed

lemma within_capacity_load_keys:
  "within_capacity h \<Longrightarrow> within_capacity (snd (load_keys data h))"
proof (induction data arbitrary: h)
  case Nil
  then show ?case by simp
next
  case (Cons kx data)
  obtain k xs where kx: "kx = (k, xs)" by (cases kx)
  show ?case
  proof (cases "h k")
    case None
    with Cons.prems kx show ?thesis by simp
  next
    case (Some d)
    with Cons.prems have "within_capacity (h(k \<mapsto> deque_of xs (maxlen d)))"
      by (intro within_capacity_update [where d = d])
         (simp_all add: maxlen_deque_of length_deque_of)
    then have "within_capacity (snd (load_keys data (h(k \<mapsto> deque_of xs (maxlen d)))))"
      by (rule Cons.IH)
    with Some kx show ?thesis by simp
  qed
qed

lemma within_capacity_load_history:
  "within_capacity h \<Longrightarrow> within_capacity (snd (load_history file h))"
  by (cases "file") (simp_all add: load_history_def within_capacity_load_keys)

lemma within_capacity_smoothed_strength:
  "within_capacity h \<Longrightarrow> within_capacity (snd (smoothed_strength name v h))"
  by (cases "h name")
     (simp_all add: smoothed_strength_def Let_def within_capacity_append split: sum.splits)

lemma within_capacity_smooth_each:
  "within_capacity h \<Longrightarrow> within_capacity (snd (smooth_each kvs h))"
proof (induction kvs arbitrary: h)
  case Nil
  then show ?case by simp
next
  case (Cons kv kvs)
  obtain k v where kv: "kv = (k, v)" by (cases kv)
  obtain r h' where r: "smoothed_strength k v h = (r, h')" by (cases "smoothed_strength k v h")
  with Cons.prems within_capacity_smoothed_strength [of h k v] have h': "within_capacity h'"
    by simp
  then have "within_capacity (snd (smooth_each kvs h'))" by (rule Cons.IH)
  with h' kv r show ?case
    by (cases r; cases "smooth_each kvs h'") (auto split: sum.splits)
qed

lemma within_capacity_append_each:
  "within_capacity h \<Longrightarrow> within_capacity (snd (append_each kvs h))"
proof (induction kvs arbitrary: h)
  case Nil
  then show ?case by simp
next
  case (Cons kv kvs)
  obtain k x where kv: "kv = (k, x)" by (cases kv)
  show ?case
  proof (cases "h k")
    case None
    with Cons.prems kv show ?thesis by simp
  next
    case (Some d)
    with Cons.prems have "within_capacity (h(k \<mapsto> deque_append d x))"
      by (simp add: within_capacity_append)
    then have "within_capacity (snd (append_each kvs (h(k \<mapsto> deque_append d x))))"
      by (rule Cons.IH)
    with Some kv show ?thesis by simp
  qed
qed

lemma within_capacity_phase_alert:
  assumes "within_capacity h"
  shows "within_capacity (snd (phase_alert ch score rg date h))"
proof -
  let ?sm = "smooth_each (smoothing_calls ch) h"
  obtain r h1 where sm: "?sm = (r, h1)" by (cases ?sm)
  from assms have "within_capacity (snd ?sm)" by (rule within_capacity_smooth_each)
  with sm have h1: "within_capacity h1" by simp
  show ?thesis
  proof (cases r)
    case (Inl e)
    with sm h1 show ?thesis by (simp add: phase_alert_def)
  next
    case (Inr smooth)
    let ?ap = "append_each (buffer_appends ch rg date) h1"
    obtain e h2 where ap: "?ap = (e, h2)" by (cases ?ap)
    from h1 have "within_capacity (snd ?ap)" by (rule within_capacity_append_each)
    with ap have h2: "within_capacity h2" by simp
    from sm Inr ap h2 show ?thesis
      by (cases e) (simp_all add: phase_alert_def Let_def split: sum.splits)
  qed
qed

text \<open>A tick leaves the dictionary as it was or as the alert branch left it.\<close>

lemma history_tick:
  "history (snd (tick inp s)) = history s
   \<or> (\<exists>ch score rg. history (snd (tick inp s)) = snd (phase_alert ch score rg (today inp) (history s)))"
  by (auto simp: tick_def Let_def split: sum.splits option.splits)

lemma within_capacity_tick:
  "within_capacity (history s) \<Longrightarrow> within_capacity (history (snd (tick inp s)))"
  using history_tick [of inp s] by (auto simp: within_capacity_phase_alert)

lemma within_capacity_run_ticks:
  "within_capacity (history s) \<Longrightarrow> within_capacity (history (run_ticks s inps))"
  by (induction inps arbitrary: s) (simp_all add: within_capacity_tick)

lemma run_init_history:
  "run_init file t0 = Inr s \<Longrightarrow> history s = snd (load_history file history_init)"
  by (auto simp: run_init_def split: prod.splits option.splits)

text \<open>
  C4. Every buffer of \<open>history\<close> has its declared capacity (3 for the smoothing buffers, 5
  for the trend buffers, 7 for the weekly fields) and at most that many elements: at
  the start, after \<open>load_history\<close> whatever the file holds (also when it stops with a
  KeyError), and after any number of ticks. The constructor used on load keeps the newest
  elements up to the capacity, and any sequence of appends to a buffer leaves the
  newest elements up to the capacity, the oldest being dropped first.
\<close>

theorem buffers_within_capacity:
  "within_capacity history_init
   \<and> within_capacity (snd (load_history file history_init))
   \<and> (run_init file t0 = Inr s \<longrightarrow> within_capacity (history (run_ticks s inps)))
   \<and> items (deque_of xs m) = drop (length xs - m) xs
   \<and> (length (items d) \<le> maxlen d \<longrightarrow>
        maxlen (foldl deque_append d ys) = maxlen d
        \<and> length (items (foldl deque_append d ys)) \<le> maxlen d
        \<and> items (foldl deque_append d ys) =
            drop (length (items d @ ys) - maxlen d) (items d @ ys))"
proof -
  have ld: "within_capacity (snd (load_history file history_init))"
    by (rule within_capacity_load_history [OF within_capacity_init])
  have "within_capacity (history (run_ticks s inps))" if "run_init file t0 = Inr s"
    using that ld by (simp add: run_init_history within_capacity_run_ticks)
  moreover have "length (items (foldl deque_append d ys)) \<le> maxlen d"
    if "length (items d) \<le> maxlen d"
    using foldl_deque_append [OF that, of ys] by simp
  ultimately show ?thesis
    using ld by (simp add: within_capacity_init items_deque_of foldl_deque_append)
qed

text \<open>
  A file whose list for \<open>vix_strength\<close> has five elements: the buffer holds the last
  three after the load, and the invariant holds after a tick on which an alert fires.
\<close>

theorem buffers_within_capacity_witness:
  "within_capacity
     (snd (load_history
        (Some [(''vix_strength'', [Num 10, Num 20, Num 30, Num 40, Num 50])]) history_init))
   \<and> buffer
     (snd (load_history
        (Some [(''vix_strength'', [Num 10, Num 20, Num 30, Num 40, Num 50])]) history_init))
     ''vix_strength'' = [Num 30, Num 40, Num 50]
   \<and> (\<exists>s. run_init (Some [(''vix_strength'', [Num 10, Num 20, Num 30, Num 40, Num 50])]) 0
            = Inr s
          \<and> within_capacity (history (run_ticks s
               [\<lparr>fetched = Inr \<lparr>vix = 20, vvix = 100, spx = 5000, vx1 = 20, vx2 = 25,
                                vx3 = 25.25\<rparr>,
                 today = ''11-06'', now = 600\<rparr>])))
   \<and> items (foldl deque_append \<lparr>items = [Num 1, Num 2, Num 3], maxlen = 3\<rparr> [Num 4, Num 5])
       = [Num 3, Num 4, Num 5]"
proof -
  let ?file = "Some [(''vix_strength'', [Num 10, Num 20, Num 30, Num 40, Num 50])]"
  let ?inps = "[\<lparr>fetched = Inr \<lparr>vix = 20, vvix = 100, spx = 5000, vx1 = 20, vx2 = 25,
                                vx3 = 25.25\<rparr>,
                 today = ''11-06'', now = 600\<rparr>]"
  let ?d = "\<lparr>items = [Num 1, Num 2, Num 3], maxlen = 3\<rparr>"
  have ld: "load_history ?file history_init =
      (None, history_init(''vix_strength'' \<mapsto>
         deque_of [Num 10, Num 20, Num 30, Num 40, Num 50] 3))"
    by (simp add: load_history_def history_init_def deque_empty_def SMOOTHING_DAYS_def)
  then obtain s where s: "run_init ?file 0 = Inr s"
    by (simp add: run_init_def)
  have le: "length (items ?d) \<le> maxlen ?d"
    by simp
  note inst = buffers_within_capacity
    [of ?file 0 s ?inps "[Num 10, Num 20, Num 30, Num 40, Num 50]" 3 ?d "[Num 4, Num 5]"]
  from inst s le have "within_capacity (history (run_ticks s ?inps))"
    and "items (foldl deque_append ?d [Num 4, Num 5]) = [Num 3, Num 4, Num 5]"
    and "within_capacity (snd (load_history ?file history_init))"
    and "items (deque_of [Num 10, Num 20, Num 30, Num 40, Num 50] 3) = [Num 30, Num 40, Num 50]"
    by simp_all
  with s ld show ?thesis
    by (simp add: buffer_def)
qed

section \<open>What a tick does to the state\<close>













text \<open>
  C7. On a tick where the fake-spike condition holds, the only output is the fake-spike
  alert and the state after the tick is the state before it: \<open>previous\<close>, every buffer
  and \<open>last_weekly_alert\<close> are untouched, so neither a score nor a regime leaves a trace.
\<close>

theorem spike_short_circuits:
  assumes "fetched inp = Inr data" and "compute_changes data (previous s) = Inr ch"
    and "fake_spike data ch"
  shows "tick inp s = ([Sent FakeSpikeAlert], s)"
  using assms by (simp add: tick_def)

theorem spike_short_circuits_witness:
  "fake_spike \<lparr>vix = 20, vvix = 100, spx = 5000, vx1 = 3, vx2 = 2, vx3 = 1\<rparr>
     \<lparr>vix_change = 100 / 19, vvix_change = 100 / 9, spx_change = 100 / 49, spread = 1,
      spread_trending_down = False\<rparr>
   \<and> tick \<lparr>fetched = Inr \<lparr>vix = 20, vvix = 100, spx = 5000, vx1 = 3, vx2 = 2, vx3 = 1\<rparr>,
            today = ''11-06'', now = 600\<rparr>
        \<lparr>previous = \<lparr>prev_vix = Some 19, prev_vvix = Some 90, prev_spx = Some 4900,
                      prev_spread = Some 1, prev_regime = Some PANIC\<rparr>,
         history = history_init, last_weekly_alert = 0\<rparr>
     = ([Sent FakeSpikeAlert],
        \<lparr>previous = \<lparr>prev_vix = Some 19, prev_vvix = Some 90, prev_spx = Some 4900,
                      prev_spread = Some 1, prev_regime = Some PANIC\<rparr>,
         history = history_init, last_weekly_alert = 0\<rparr>)"
proof -
  have f: "fake_spike \<lparr>vix = 20, vvix = 100, spx = 5000, vx1 = 3, vx2 = 2, vx3 = 1\<rparr>
     \<lparr>vix_change = 100 / 19, vvix_change = 100 / 9, spx_change = 100 / 49, spread = 1,
      spread_trending_down = False\<rparr>"
    by (simp add: fake_spike_def)
  have c: "compute_changes \<lparr>vix = 20, vvix = 100, spx = 5000, vx1 = 3, vx2 = 2, vx3 = 1\<rparr>
      (previous \<lparr>previous = \<lparr>prev_vix = Some 19, prev_vvix = Some 90, prev_spx = Some 4900,
                      prev_spread = Some 1, prev_regime = Some PANIC\<rparr>,
         history = history_init, last_weekly_alert = 0\<rparr>)
     = Inr \<lparr>vix_change = 100 / 19, vvix_change = 100 / 9, spx_change = 100 / 49, spread = 1,
      spread_trending_down = False\<rparr>"
    by (simp add: compute_changes_def)
  have i: "fetched \<lparr>fetched = Inr \<lparr>vix = 20, vvix = 100, spx = 5000, vx1 = 3, vx2 = 2, vx3 = 1\<rparr>,
            today = ''11-06'', now = 600\<rparr>
      = Inr \<lparr>vix = 20, vvix = 100, spx = 5000, vx1 = 3, vx2 = 2, vx3 = 1\<rparr>"
    by simp
  from f spike_short_circuits [OF i c f] show ?thesis by simp
qed

section \<open>Snapshots of the data fetch\<close>

lemma phase_alert_no_spike:
  "Sent FakeSpikeAlert \<notin> set (snd (fst (phase_alert ch score rg date h)))"
  by (simp add: phase_alert_def Let_def split: prod.splits sum.splits option.splits)

lemma weekly_no_spike:
  "send_weekly_dashboard h prev = Inr evs \<Longrightarrow> Sent FakeSpikeAlert \<notin> set evs"
  by (auto simp: send_weekly_dashboard_def bind_e_def split: sum.splits if_splits)

text \<open>
  C10. A snapshot built by \<open>fetch_market_data\<close> has \<open>vx3 = vx2 * 1.01\<close>; when \<open>vx2\<close> is
  positive, \<open>vx2 > vx3\<close> cannot hold, so \<open>fake_spike\<close> is false whatever the changes
  are, and a tick on such a snapshot never sends the fake-spike alert.
\<close>

theorem spike_branch_unreachable:
  "(0 < price_UVXY p \<longrightarrow> \<not> fake_spike (fetch_market_data p) ch)
   \<and> (0 < price_UVXY p \<and> fetched inp = Inr (fetch_market_data p)
        \<longrightarrow> Sent FakeSpikeAlert \<notin> set (fst (tick inp s)))"
proof (intro conjI impI)
  assume "0 < price_UVXY p"
  then show "\<not> fake_spike (fetch_market_data p) ch"
    by (simp add: fake_spike_def fetch_market_data_def)
next
  assume a: "0 < price_UVXY p \<and> fetched inp = Inr (fetch_market_data p)"
  then have ns: "\<not> fake_spike (fetch_market_data p) c" for c
    by (simp add: fake_spike_def fetch_market_data_def)
  from a ns show "Sent FakeSpikeAlert \<notin> set (fst (tick inp s))"
    by (auto simp: tick_def Let_def phase_alert_no_spike
        split: sum.splits option.splits dest: weekly_no_spike)
qed

text \<open>
  Prices with VIXY above UVXY and both vix and vvix rising: the first two parts of the
  fake-spike condition hold, the derived \<open>vx3\<close> defeats the third.
\<close>

theorem spike_branch_unreachable_witness:
  "\<not> fake_spike
      (fetch_market_data
         \<lparr>price_VIX = 20, price_VVIX = 100, price_GSPC = 5000, price_VIXY = 30,
          price_UVXY = 25\<rparr>)
      \<lparr>vix_change = 5, vvix_change = 5, spx_change = 0, spread = 5,
       spread_trending_down = False\<rparr>
   \<and> Sent FakeSpikeAlert \<notin> set (fst (tick
        \<lparr>fetched = Inr (fetch_market_data
            \<lparr>price_VIX = 20, price_VVIX = 100, price_GSPC = 5000, price_VIXY = 30,
             price_UVXY = 25\<rparr>),
         today = ''11-06'', now = 600\<rparr>
        \<lparr>previous = \<lparr>prev_vix = Some 19, prev_vvix = Some 90, prev_spx = Some 4900,
                      prev_spread = Some 1, prev_regime = Some PANIC\<rparr>,
         history = history_init, last_weekly_alert = 0\<rparr>))"
  using spike_branch_unreachable [of
      "\<lparr>price_VIX = 20, price_VVIX = 100, price_GSPC = 5000, price_VIXY = 30,
        price_UVXY = 25\<rparr>"
      "\<lparr>vix_change = 5, vvix_change = 5, spx_change = 0, spread = 5,
        spread_trending_down = False\<rparr>"
      "\<lparr>fetched = Inr (fetch_market_data
            \<lparr>price_VIX = 20, price_VVIX = 100, price_GSPC = 5000, price_VIXY = 30,
             price_UVXY = 25\<rparr>),
         today = ''11-06'', now = 600\<rparr>"
      "\<lparr>previous = \<lparr>prev_vix = Some 19, prev_vvix = Some 90, prev_spx = Some 4900,
                      prev_spread = Some 1, prev_regime = Some PANIC\<rparr>,
         history = history_init, last_weekly_alert = 0\<rparr>"]
  by simp

end
